theory Spec2Isabelle
  imports Main
begin

section \<open>The HTTP tunnel servlet (httpTunnelServer.go)\<close>

text \<open>
  A shallow embedding of \<^verbatim>\<open>HttpTunnelServlet\<close>: the request dispatcher
  \<^verbatim>\<open>handleTunnelRequestCore\<close>, the connect branch, \<^verbatim>\<open>doRead\<close> with its
  streaming loop \<^verbatim>\<open>stream\<close>, \<^verbatim>\<open>doWrite\<close> and \<^verbatim>\<open>ServeHTTP\<close>.

  Strings are byte lists, as Go's are. The servlet's mutable state is passed
  explicitly. Every call the handlers make on a collaborator (registry mutation,
  tunnel, instruction reader, response) is appended to a trace, in program order,
  together with the answer the collaborator gave; logger output is kept in a
  separate list. The answers of the collaborators are the parameters of one
  request, collected in the record \<open>request\<close>.
\<close>

subsection \<open>Constants\<close>

definition ReadPrefix :: string where
  "ReadPrefix = ''read:''"

definition WritePrefix :: string where
  "WritePrefix = ''write:''"

definition ReadPrefixLength :: nat where
  "ReadPrefixLength = length ReadPrefix"

definition WritePrefixLength :: nat where
  "WritePrefixLength = length WritePrefix"

definition UuidLength :: nat where
  "UuidLength = 36"

text \<open>The end-of-instructions marker written by \<^verbatim>\<open>stream\<close> and \<^verbatim>\<open>doRead\<close>.\<close>

definition sentinel :: string where
  "sentinel = ''0.;''"

subsection \<open>Errors\<close>

text \<open>
  Modelled from the spec: the error kinds \<^verbatim>\<open>ErrorKind\<close>, the tagged error
  \<^verbatim>\<open>*ErrGuac\<close> and \<^verbatim>\<open>ErrorKind.NewError\<close> are declared outside
  httpTunnelServer.go. The five kinds are the ones the file names, which are the rows of
  the error table of the design (section 7). A tagged error carries its kind and the
  arguments it was built from; its status is the one of its kind.
\<close>

datatype ErrorKind = ErrClient | ErrResourceNotFound | ErrConnectionClosed | ErrServer | ErrOther

record ErrGuac =
  Kind :: ErrorKind
  Args :: "string list"

definition NewError :: "ErrorKind \<Rightarrow> string list \<Rightarrow> ErrGuac" where
  "NewError k args = \<lparr>Kind = k, Args = args\<rparr>"

text \<open>
  A value of Go's interface \<^verbatim>\<open>error\<close>: either a tagged \<^verbatim>\<open>*ErrGuac\<close> or any
  other error (those of net/http and io are never tagged). The type assertion
  \<^verbatim>\<open>err.(*ErrGuac)\<close> panics on the second.
\<close>

datatype go_error = Guac ErrGuac | Plain string

fun join_args :: "string list \<Rightarrow> string" where
  "join_args [] = []"
| "join_args [a] = a"
| "join_args (a # b # bs) = a @ '', '' @ join_args (b # bs)"

fun Error_text :: "go_error \<Rightarrow> string" where
  "Error_text (Guac e) = join_args (Args e)"
| "Error_text (Plain m) = m"

text \<open>
  What a call does: it returns a value, it panics (a failed type assertion, a slice out
  of range), or it never returns because the instruction reader blocks forever.
\<close>

datatype 'a outcome = Return 'a | Panic | Blocked

subsection \<open>Collaborators\<close>

text \<open>A tunnel is addressed by its UUID string.\<close>

datatype Tunnel = Tunnel (GetUUID: string)

text \<open>
  One pull of the instruction reader: what \<^verbatim>\<open>ReadSome\<close> returns (message and
  error; Go returns both), and what \<^verbatim>\<open>reader.Available()\<close> and
  \<^verbatim>\<open>tunnel.HasQueuedReaderThreads()\<close> answer while that message is handled.

  Modelled from the spec: \<^verbatim>\<open>InstructionReader\<close> is declared outside
  httpTunnelServer.go; a failing fetch carries an error kind (section 4.4, step 5),
  which is what \<^verbatim>\<open>doRead\<close> relies on when it reads \<^verbatim>\<open>err.(*ErrGuac).Kind\<close>.
\<close>

record pull =
  message :: string
  read_err :: "ErrGuac option"
  available :: bool
  queued :: bool

datatype level = Debug | Warn | Error

datatype event =
    Put string Tunnel
  | Remove string
  | Close Tunnel "go_error option"
  | AcquireReader Tunnel
  | ReleaseReader Tunnel
  | AcquireWriter Tunnel
  | ReleaseWriter Tunnel
  | ReadSome string "ErrGuac option"
  | Available bool
  | HasQueuedReaderThreads bool
  | Copy "go_error option"
  | SetHeader string string
  | Write string "string option"
  | Flush
  | SendError ErrorKind string

text \<open>
  The request and the behaviour of the collaborators while it is served:
  the query string; the result of the \<^verbatim>\<open>connect\<close> callback; the successive pulls of the
  instruction reader (when the list is used up, \<^verbatim>\<open>ReadSome\<close> blocks forever); the result
  of the n-th \<^verbatim>\<open>response.Write\<close> of this response; whether the response implements
  \<^verbatim>\<open>http.Flusher\<close>; the result of \<^verbatim>\<open>io.Copy\<close>; the result of \<^verbatim>\<open>tunnel.Close\<close>.
\<close>

record request =
  RawQuery :: string
  connect :: "go_error + Tunnel"
  pulls :: "pull list"
  write_err :: "nat \<Rightarrow> string option"
  flusher :: bool
  copy_err :: "go_error option"
  close_err :: "go_error option"

text \<open>
  Modelled from the spec: \<^verbatim>\<open>HttpTunnelMap\<close> is declared outside httpTunnelServer.go;
  \<open>Put\<close> overwrites, \<open>Get\<close> answers the entry or not-found, \<open>Remove\<close> is idempotent
  (section 4.1). It is the field \<open>tunnels\<close>, a map.
\<close>

record servlet =
  tunnels :: "string \<rightharpoonup> Tunnel"
  trace :: "event list"
  writes :: nat
  logs :: "(level \<times> string) list"

definition NewHTTPTunnelServlet :: servlet where
  "NewHTTPTunnelServlet = \<lparr>tunnels = Map.empty, trace = [], writes = 0, logs = []\<rparr>"

definition emit :: "event \<Rightarrow> servlet \<Rightarrow> servlet" where
  "emit e s = s\<lparr>trace := trace s @ [e]\<rparr>"

definition logger :: "level \<Rightarrow> string \<Rightarrow> servlet \<Rightarrow> servlet" where
  "logger l m s = s\<lparr>logs := logs s @ [(l, m)]\<rparr>"

text \<open>\<^verbatim>\<open>response.Write(b)\<close>: the call is recorded with its result.\<close>

definition response_Write :: "request \<Rightarrow> string \<Rightarrow> servlet \<Rightarrow> string option \<times> servlet" where
  "response_Write rq b s =
     (let r = write_err rq (writes s)
      in (r, (emit (Write b r) s)\<lparr>writes := Suc (writes s)\<rparr>))"

text \<open>\<^verbatim>\<open>if v, ok := response.(http.Flusher); ok { v.Flush() }\<close>\<close>

definition flush :: "request \<Rightarrow> servlet \<Rightarrow> servlet" where
  "flush rq s = (if flusher rq then emit Flush s else s)"

definition tunnel_Close :: "request \<Rightarrow> Tunnel \<Rightarrow> servlet \<Rightarrow> go_error option \<times> servlet" where
  "tunnel_Close rq t s = (close_err rq, emit (Close t (close_err rq)) s)"

subsection \<open>Registry operations of the servlet\<close>

definition registerTunnel :: "Tunnel \<Rightarrow> servlet \<Rightarrow> servlet" where
  "registerTunnel t s =
     logger Debug (''Registered tunnel \"'' @ GetUUID t @ ''\".'')
       (emit (Put (GetUUID t) t) (s\<lparr>tunnels := (tunnels s)(GetUUID t \<mapsto> t)\<rparr>))"

definition deregisterTunnel :: "Tunnel \<Rightarrow> servlet \<Rightarrow> servlet" where
  "deregisterTunnel t s =
     logger Debug (''Deregistered tunnel \"'' @ GetUUID t @ ''\".'')
       (emit (Remove (GetUUID t)) (s\<lparr>tunnels := (tunnels s)(GetUUID t := None)\<rparr>))"

definition getTunnel :: "servlet \<Rightarrow> string \<Rightarrow> go_error + Tunnel" where
  "getTunnel s tunnelUUID =
     (case tunnels s tunnelUUID of
        None \<Rightarrow> Inl (Guac (NewError ErrResourceNotFound [''No such tunnel.'']))
      | Some t \<Rightarrow> Inr t)"

subsection \<open>The streaming loop\<close>

text \<open>
  The code after the \<^verbatim>\<open>for\<close> loop of \<^verbatim>\<open>stream\<close>, entered with the loop's \<open>err\<close>:
  tear the tunnel down if \<open>err\<close> is set, write the marker, return the marker write's
  own error (untagged) or flush and return nil.
\<close>

definition stream_end :: "request \<Rightarrow> Tunnel \<Rightarrow> ErrGuac option \<Rightarrow> servlet \<Rightarrow> go_error option outcome \<times> servlet" where
  "stream_end rq t err s =
     (let s1 = (if err \<noteq> None then snd (tunnel_Close rq t (deregisterTunnel t s)) else s);
          (w, s2) = response_Write rq sentinel s1
      in case w of
           Some m \<Rightarrow> (Return (Some (Plain m)), s2)
         | None \<Rightarrow> (Return None, flush rq s2))"

text \<open>
  The \<^verbatim>\<open>for\<close> loop, entered at its condition with the pull \<open>p\<close> just obtained
  (already in the trace) and the pulls \<open>ps\<close> still to come.
\<close>

fun stream_loop :: "request \<Rightarrow> Tunnel \<Rightarrow> pull \<Rightarrow> pull list \<Rightarrow> servlet \<Rightarrow> go_error option outcome \<times> servlet" where
  "stream_loop rq t p ps s =
     (if length (message p) > 0 then
        (case read_err p of
           Some e \<Rightarrow> (Return (Some (Guac e)), s)
         | None \<Rightarrow>
            (let (w, s1) = response_Write rq (message p) s
             in case w of
                  Some m \<Rightarrow> (Return (Some (Guac (NewError ErrOther [m]))), s1)
                | None \<Rightarrow>
                   (let s2 = emit (Available (available p)) s1;
                        s3 = (if \<not> available p then flush rq s2 else s2);
                        s4 = emit (HasQueuedReaderThreads (queued p)) s3
                    in if queued p then stream_end rq t None s4
                       else (case ps of
                               [] \<Rightarrow> (Blocked, s4)
                             | p' # ps' \<Rightarrow>
                                 stream_loop rq t p' ps' (emit (ReadSome (message p') (read_err p')) s4)))))
      else stream_end rq t (read_err p) s)"

definition stream :: "request \<Rightarrow> Tunnel \<Rightarrow> servlet \<Rightarrow> go_error option outcome \<times> servlet" where
  "stream rq t s =
     (case pulls rq of
        [] \<Rightarrow> (Blocked, s)
      | p # ps \<Rightarrow>
         (let s1 = emit (ReadSome (message p) (read_err p)) s
          in case read_err p of
               Some e \<Rightarrow> (Return (Some (Guac e)), s1)
             | None \<Rightarrow> stream_loop rq t p ps s1))"

subsection \<open>Read\<close>

text \<open>
  The part of \<^verbatim>\<open>doRead\<close> after \<^verbatim>\<open>stream\<close> has returned \<open>err\<close>.
\<close>

fun doRead_after :: "request \<Rightarrow> Tunnel \<Rightarrow> go_error option \<Rightarrow> servlet \<Rightarrow> go_error option outcome \<times> servlet" where
  "doRead_after rq t None s = (Return None, s)"
| "doRead_after rq t (Some (Plain m)) s = (Panic, s)"
| "doRead_after rq t (Some (Guac e)) s =
     (if Kind e = ErrConnectionClosed then
        (let s1 = snd (tunnel_Close rq t (deregisterTunnel t s));
             s2 = snd (response_Write rq sentinel s1)
         in (Return (Some (Guac e)), flush rq s2))
      else
        (let s1 = logger Debug (''Error writing to servlet output stream'' @ Error_text (Guac e)) s;
             s2 = snd (tunnel_Close rq t (deregisterTunnel t s1))
         in (Return (Some (Guac e)), s2)))"

text \<open>A deferred call runs when the function returns or panics, not when it blocks.\<close>

definition deferred :: "event \<Rightarrow> 'a outcome \<times> servlet \<Rightarrow> 'a outcome \<times> servlet" where
  "deferred e r = (case fst r of Blocked \<Rightarrow> r | _ \<Rightarrow> (fst r, emit e (snd r)))"

definition doRead :: "request \<Rightarrow> string \<Rightarrow> servlet \<Rightarrow> go_error option outcome \<times> servlet" where
  "doRead rq tunnelUUID s =
     (case getTunnel s tunnelUUID of
        Inl err \<Rightarrow> (Return (Some err), s)
      | Inr t \<Rightarrow>
         deferred (ReleaseReader t)
           (let s1 = emit (AcquireReader t) s;
                s2 = emit (SetHeader ''Content-Type'' ''application/octet-stream'') s1;
                s3 = emit (SetHeader ''Cache-Control'' ''no-cache'') s2;
                s4 = flush rq s3
            in case stream rq t s4 of
                 (Return err, s5) \<Rightarrow> doRead_after rq t err s5
               | (Panic, s5) \<Rightarrow> (Panic, s5)
               | (Blocked, s5) \<Rightarrow> (Blocked, s5)))"

subsection \<open>Write\<close>

definition doWrite :: "request \<Rightarrow> string \<Rightarrow> servlet \<Rightarrow> go_error option outcome \<times> servlet" where
  "doWrite rq tunnelUUID s =
     (case getTunnel s tunnelUUID of
        Inl err \<Rightarrow> (Return (Some err), s)
      | Inr t \<Rightarrow>
         (let s1 = emit (SetHeader ''Content-Type'' ''application/octet-stream'') s;
              s2 = emit (SetHeader ''Cache-Control'' ''no-cache'') s1;
              s3 = emit (SetHeader ''Content-Length'' ''0'') s2;
              s4 = emit (AcquireWriter t) s3
          in deferred (ReleaseWriter t)
               (let s5 = emit (Copy (copy_err rq)) s4
                in case copy_err rq of
                     None \<Rightarrow> (Return None, s5)
                   | Some _ \<Rightarrow>
                      (let (err, s6) = tunnel_Close rq t (deregisterTunnel t s5)
                       in case err of
                            None \<Rightarrow> (Return None, s6)
                          | Some e \<Rightarrow> (Return (Some e), logger Debug ''Error closing tunnel'' s6)))))"

subsection \<open>Dispatch\<close>

text \<open>
  Go's \<^verbatim>\<open>q[lo:hi]\<close> on a string: the bytes from \<open>lo\<close> up to \<open>hi\<close>, and a panic
  unless \<open>lo \<le> hi \<le> len(q)\<close>.
\<close>

definition slice :: "string \<Rightarrow> nat \<Rightarrow> nat \<Rightarrow> string option" where
  "slice q lo hi = (if lo \<le> hi \<and> hi \<le> length q then Some (take (hi - lo) (drop lo q)) else None)"

definition HasPrefix :: "string \<Rightarrow> string \<Rightarrow> bool" where
  "HasPrefix q p = (length p \<le> length q \<and> take (length p) q = p)"

definition handleTunnelRequestCore :: "request \<Rightarrow> servlet \<Rightarrow> go_error option outcome \<times> servlet" where
  "handleTunnelRequestCore rq s =
     (let query = RawQuery rq
      in if length query = 0 then
           (Return (Some (Guac (NewError ErrClient [''No query string provided.'']))), s)
         else if query = ''connect'' then
           (case connect rq of
              Inl e \<Rightarrow>
                (Return (Some (Guac (NewError ErrResourceNotFound [''No tunnel created.'', Error_text e]))), s)
            | Inr tunnel \<Rightarrow>
               (let s1 = registerTunnel tunnel s;
                    s2 = emit (SetHeader ''Cache-Control'' ''no-cache'') s1;
                    (w, s3) = response_Write rq (GetUUID tunnel) s2
                in case w of
                     Some m \<Rightarrow> (Return (Some (Guac (NewError ErrServer [m]))), s3)
                   | None \<Rightarrow> (Return None, s3)))
         else if HasPrefix query ReadPrefix then
           (case slice query ReadPrefixLength (ReadPrefixLength + UuidLength) of
              None \<Rightarrow> (Panic, s)
            | Some u \<Rightarrow> doRead rq u s)
         else if HasPrefix query WritePrefix then
           (case slice query WritePrefixLength (WritePrefixLength + UuidLength) of
              None \<Rightarrow> (Panic, s)
            | Some u \<Rightarrow> doWrite rq u s)
         else
           (Return (Some (Guac (NewError ErrClient [''Invalid tunnel operation: '' @ query]))), s))"

text \<open>
  \<^verbatim>\<open>sendError\<close> sets the two Guacamole headers and the HTTP status from the status of
  the error; the status is the one of the error's kind, so the event carries the kind.
\<close>

definition sendError :: "ErrorKind \<Rightarrow> string \<Rightarrow> servlet \<Rightarrow> servlet" where
  "sendError k m s = emit (SendError k m) s"

definition ServeHTTP :: "request \<Rightarrow> servlet \<Rightarrow> unit outcome \<times> servlet" where
  "ServeHTTP rq s =
     (case handleTunnelRequestCore rq s of
        (Return None, s1) \<Rightarrow> (Return (), s1)
      | (Return (Some (Plain m)), s1) \<Rightarrow> (Panic, s1)
      | (Return (Some (Guac e)), s1) \<Rightarrow>
          (if Kind e = ErrClient then
             (Return (),
              sendError (Kind e) (Error_text (Guac e))
                (logger Warn (''HTTP tunnel request rejected: '' @ Error_text (Guac e)) s1))
           else
             (Return (),
              sendError (Kind e) ''Internal server error.''
                (logger Debug (''Internal error in HTTP tunnel.'' @ Error_text (Guac e))
                  (logger Error (''HTTP tunnel request failed: '' @ Error_text (Guac e)) s1))))
      | (Panic, s1) \<Rightarrow> (Panic, s1)
      | (Blocked, s1) \<Rightarrow> (Blocked, s1))"

subsection \<open>Predicates on outcomes and traces\<close>

fun is_not_found :: "go_error option outcome \<Rightarrow> bool" where
  "is_not_found (Return (Some (Guac e))) = (Kind e = ErrResourceNotFound)"
| "is_not_found _ = False"

subsection \<open>Example requests\<close>

definition example_tunnel :: Tunnel where
  "example_tunnel = Tunnel ''123e4567-e89b-12d3-a456-426614174000''"

definition example_request :: request where
  "example_request = \<lparr>RawQuery = ''connect'', connect = Inr example_tunnel, pulls = [],
     write_err = (\<lambda>n. None), flusher = True, copy_err = None, close_err = None\<rparr>"

text \<open>The servlet after one successful registration.\<close>

definition registered :: servlet where
  "registered = registerTunnel example_tunnel NewHTTPTunnelServlet"

text \<open>A write request whose body relay fails.\<close>

definition write_request :: request where
  "write_request = example_request\<lparr>RawQuery := ''write:123e4567-e89b-12d3-a456-426614174000'',
     copy_err := Some (Plain ''unexpected EOF'')\<rparr>"

text \<open>A read request with a cache-busting suffix; the source has nothing to deliver.\<close>

definition read_request :: request where
  "read_request = example_request\<lparr>RawQuery := ''read:123e4567-e89b-12d3-a456-426614174000:17'',
     pulls := [\<lparr>message = [], read_err = None, available = False, queued = False\<rparr>]\<rparr>"

section \<open>Properties\<close>

subsection \<open>Dispatch\<close>

lemma HasPrefix_iff: "HasPrefix q p \<longleftrightarrow> (\<exists>r. q = p @ r)"
proof
  assume "HasPrefix q p"
  then have "q = p @ drop (length p) q"
    by (metis HasPrefix_def append_take_drop_id)
  then show "\<exists>r. q = p @ r" ..
next
  assume "\<exists>r. q = p @ r"
  then show "HasPrefix q p" by (auto simp: HasPrefix_def)
qed

lemma HasPrefix_read_not_connect:
  "HasPrefix q ReadPrefix \<Longrightarrow> q \<noteq> [] \<and> q \<noteq> ''connect''"
  by (auto simp: HasPrefix_iff ReadPrefix_def)

lemma HasPrefix_write_not_others:
  "HasPrefix q WritePrefix \<Longrightarrow> q \<noteq> [] \<and> q \<noteq> ''connect'' \<and> \<not> HasPrefix q ReadPrefix"
  by (auto simp: HasPrefix_iff ReadPrefix_def WritePrefix_def)

lemma slice_short: "length q < lo + n \<Longrightarrow> slice q lo (lo + n) = None"
  by (simp add: slice_def)

lemma slice_long: "lo + n \<le> length q \<Longrightarrow> slice q lo (lo + n) = Some (take n (drop lo q))"
  by (simp add: slice_def)

lemma core_empty:
  "RawQuery rq = [] \<Longrightarrow>
   handleTunnelRequestCore rq s =
     (Return (Some (Guac (NewError ErrClient [''No query string provided.'']))), s)"
  by (simp add: handleTunnelRequestCore_def)

lemma core_connect_fail:
  "RawQuery rq = ''connect'' \<Longrightarrow> connect rq = Inl e \<Longrightarrow>
   handleTunnelRequestCore rq s =
     (Return (Some (Guac (NewError ErrResourceNotFound [''No tunnel created.'', Error_text e]))), s)"
  by (simp add: handleTunnelRequestCore_def)

lemma core_connect_ok:
  "RawQuery rq = ''connect'' \<Longrightarrow> connect rq = Inr t \<Longrightarrow>
   handleTunnelRequestCore rq s =
     (let s1 = registerTunnel t s;
          s2 = emit (SetHeader ''Cache-Control'' ''no-cache'') s1;
          (w, s3) = response_Write rq (GetUUID t) s2
      in case w of
           Some m \<Rightarrow> (Return (Some (Guac (NewError ErrServer [m]))), s3)
         | None \<Rightarrow> (Return None, s3))"
  by (simp add: handleTunnelRequestCore_def)

lemma core_read:
  "HasPrefix (RawQuery rq) ReadPrefix \<Longrightarrow>
   handleTunnelRequestCore rq s =
     (case slice (RawQuery rq) ReadPrefixLength (ReadPrefixLength + UuidLength) of
        None \<Rightarrow> (Panic, s) | Some u \<Rightarrow> doRead rq u s)"
  using HasPrefix_read_not_connect[of "RawQuery rq"]
  by (simp add: handleTunnelRequestCore_def)

lemma core_write:
  "HasPrefix (RawQuery rq) WritePrefix \<Longrightarrow>
   handleTunnelRequestCore rq s =
     (case slice (RawQuery rq) WritePrefixLength (WritePrefixLength + UuidLength) of
        None \<Rightarrow> (Panic, s) | Some u \<Rightarrow> doWrite rq u s)"
  using HasPrefix_write_not_others[of "RawQuery rq"]
  by (simp add: handleTunnelRequestCore_def)

lemma core_other:
  "RawQuery rq \<noteq> [] \<Longrightarrow> RawQuery rq \<noteq> ''connect'' \<Longrightarrow>
   \<not> HasPrefix (RawQuery rq) ReadPrefix \<Longrightarrow> \<not> HasPrefix (RawQuery rq) WritePrefix \<Longrightarrow>
   handleTunnelRequestCore rq s =
     (Return (Some (Guac (NewError ErrClient [''Invalid tunnel operation: '' @ RawQuery rq]))), s)"
  by (simp add: handleTunnelRequestCore_def)

text \<open>
  On a query that carries a prefix and at least 36 more bytes the dispatcher hands the
  36 bytes after the prefix to the handler, whatever follows them.
\<close>

lemma core_read_long:
  "HasPrefix (RawQuery rq) ReadPrefix \<Longrightarrow> ReadPrefixLength + UuidLength \<le> length (RawQuery rq) \<Longrightarrow>
   handleTunnelRequestCore rq s = doRead rq (take UuidLength (drop ReadPrefixLength (RawQuery rq))) s"
  by (simp add: core_read slice_long)

lemma core_write_long:
  "HasPrefix (RawQuery rq) WritePrefix \<Longrightarrow> WritePrefixLength + UuidLength \<le> length (RawQuery rq) \<Longrightarrow>
   handleTunnelRequestCore rq s = doWrite rq (take UuidLength (drop WritePrefixLength (RawQuery rq))) s"
  by (simp add: core_write slice_long)

lemma ServeHTTP_untagged:
  "fst (handleTunnelRequestCore rq s) = Return (Some (Plain m)) \<Longrightarrow> fst (ServeHTTP rq s) = Panic"
  by (cases "handleTunnelRequestCore rq s") (simp add: ServeHTTP_def)

lemma ServeHTTP_Panic:
  "fst (handleTunnelRequestCore rq s) = Panic \<Longrightarrow> fst (ServeHTTP rq s) = Panic"
  by (cases "handleTunnelRequestCore rq s") (simp add: ServeHTTP_def)

text \<open>
  C3. The dispatcher is claimed to send every query that begins with the read prefix to
  the read handler with the 36-byte identity that follows the prefix. The query
  \<open>read:abc\<close> begins with the read prefix; the slice \<^verbatim>\<open>query[5:41]\<close> is out of
  range and the dispatcher panics: it neither dispatches nor answers with a client error.
\<close>

theorem C3_short_read_query_panics:
  "HasPrefix ''read:abc'' ReadPrefix \<and>
   handleTunnelRequestCore (example_request\<lparr>RawQuery := ''read:abc''\<rparr>) NewHTTPTunnelServlet
     = (Panic, NewHTTPTunnelServlet)"
  by (simp add: handleTunnelRequestCore_def HasPrefix_def ReadPrefix_def ReadPrefixLength_def
      UuidLength_def slice_def)

text \<open>
  C9. A query that starts with the read prefix or with the write prefix and is shorter
  than the prefix plus 36 bytes makes the fixed-offset slice fail: the dispatch core
  panics without any effect, and so does \<^verbatim>\<open>ServeHTTP\<close>; no malformed-operation error
  is returned.
\<close>

theorem C9_short_prefixed_query_panics:
  "(HasPrefix (RawQuery rq) ReadPrefix \<and> length (RawQuery rq) < ReadPrefixLength + UuidLength) \<or>
   (HasPrefix (RawQuery rq) WritePrefix \<and> length (RawQuery rq) < WritePrefixLength + UuidLength)
   \<Longrightarrow> handleTunnelRequestCore rq s = (Panic, s) \<and> ServeHTTP rq s = (Panic, s)"
  by (auto simp: core_read core_write slice_short ServeHTTP_def)

theorem C9_short_prefixed_query_witness:
  "HasPrefix ''write:abc'' WritePrefix \<and> length ''write:abc'' < WritePrefixLength + UuidLength \<and>
   ServeHTTP (example_request\<lparr>RawQuery := ''write:abc''\<rparr>) NewHTTPTunnelServlet
     = (Panic, NewHTTPTunnelServlet)"
  using C9_short_prefixed_query_panics[of "example_request\<lparr>RawQuery := ''write:abc''\<rparr>" NewHTTPTunnelServlet]
  by (simp add: HasPrefix_def WritePrefix_def WritePrefixLength_def UuidLength_def)

subsection \<open>Registry\<close>

lemma getTunnel_None:
  "tunnels s u = None \<Longrightarrow> getTunnel s u = Inl (Guac (NewError ErrResourceNotFound [''No such tunnel.'']))"
  by (simp add: getTunnel_def)

lemma getTunnel_Some: "tunnels s u = Some t \<Longrightarrow> getTunnel s u = Inr t"
  by (simp add: getTunnel_def)

lemma tunnels_deregisterTunnel [simp]:
  "tunnels (deregisterTunnel t s) = (tunnels s)(GetUUID t := None)"
  by (simp add: deregisterTunnel_def logger_def emit_def)

lemma tunnels_registerTunnel [simp]:
  "tunnels (registerTunnel t s) = (tunnels s)(GetUUID t \<mapsto> t)"
  by (simp add: registerTunnel_def logger_def emit_def)

text \<open>
  C7. For an identity with no registry entry, read and write both return an error of kind
  not-found and change nothing; this holds in particular right after the identity's
  tunnel has been deregistered. A connect request whose session establishment fails
  returns an error of the same kind.
\<close>

theorem C7_unknown_identity_not_found:
  "(tunnels s u = None \<longrightarrow>
      is_not_found (fst (doRead rq u s)) \<and> is_not_found (fst (doWrite rq u s)) \<and>
      snd (doRead rq u s) = s \<and> snd (doWrite rq u s) = s) \<and>
   is_not_found (fst (doRead rq (GetUUID t) (deregisterTunnel t s))) \<and>
   is_not_found (fst (doWrite rq (GetUUID t) (deregisterTunnel t s))) \<and>
   (RawQuery rq = ''connect'' \<and> connect rq = Inl e \<longrightarrow>
      is_not_found (fst (handleTunnelRequestCore rq s)))"
  by (simp add: doRead_def doWrite_def getTunnel_None core_connect_fail NewError_def)

theorem C7_unknown_identity_witness:
  "tunnels NewHTTPTunnelServlet ''123e4567-e89b-12d3-a456-426614174000'' = None \<and>
   is_not_found (fst (doRead example_request ''123e4567-e89b-12d3-a456-426614174000'' NewHTTPTunnelServlet)) \<and>
   is_not_found (fst (doWrite example_request ''123e4567-e89b-12d3-a456-426614174000'' NewHTTPTunnelServlet)) \<and>
   RawQuery (example_request\<lparr>connect := Inl (Plain ''refused'')\<rparr>) = ''connect'' \<and>
   is_not_found (fst (handleTunnelRequestCore (example_request\<lparr>connect := Inl (Plain ''refused'')\<rparr>) NewHTTPTunnelServlet))"
  using C7_unknown_identity_not_found[of NewHTTPTunnelServlet "''123e4567-e89b-12d3-a456-426614174000''" example_request example_tunnel]
    C7_unknown_identity_not_found[of NewHTTPTunnelServlet "[]" "example_request\<lparr>connect := Inl (Plain ''refused'')\<rparr>" example_tunnel "Plain ''refused''"]
  by (simp add: NewHTTPTunnelServlet_def example_request_def)

subsection \<open>Connect\<close>

text \<open>
  C8. When session establishment succeeds and the write of the identity into the response
  fails, the dispatch core returns a server-class error; the tunnel has been registered
  and stays registered: the only registry operation of the request is the \<open>Put\<close>, and a
  later lookup of the identity finds the tunnel.
\<close>

theorem C8_connect_write_failure_keeps_tunnel:
  "RawQuery rq = ''connect'' \<Longrightarrow> connect rq = Inr t \<Longrightarrow> write_err rq (writes s) = Some m \<Longrightarrow>
   (\<exists>s'. handleTunnelRequestCore rq s = (Return (Some (Guac (NewError ErrServer [m]))), s') \<and>
     Kind (NewError ErrServer [m]) = ErrServer \<and>
     tunnels s' = (tunnels s)(GetUUID t \<mapsto> t) \<and>
     getTunnel s' (GetUUID t) = Inr t \<and>
     trace s' = trace s @ [Put (GetUUID t) t, SetHeader ''Cache-Control'' ''no-cache'',
                           Write (GetUUID t) (Some m)])"
  by (simp add: core_connect_ok response_Write_def Let_def emit_def registerTunnel_def logger_def
      getTunnel_def NewError_def)

theorem C8_connect_write_failure_witness:
  "RawQuery (example_request\<lparr>write_err := (\<lambda>n. Some ''broken pipe'')\<rparr>) = ''connect'' \<and>
   fst (handleTunnelRequestCore (example_request\<lparr>write_err := (\<lambda>n. Some ''broken pipe'')\<rparr>) NewHTTPTunnelServlet)
     = Return (Some (Guac (NewError ErrServer [''broken pipe'']))) \<and>
   getTunnel (snd (handleTunnelRequestCore (example_request\<lparr>write_err := (\<lambda>n. Some ''broken pipe'')\<rparr>) NewHTTPTunnelServlet))
     (GetUUID example_tunnel) = Inr example_tunnel"
  using C8_connect_write_failure_keeps_tunnel[of "example_request\<lparr>write_err := (\<lambda>n. Some ''broken pipe'')\<rparr>"
      example_tunnel NewHTTPTunnelServlet "''broken pipe''"]
  by (auto simp: example_request_def)

subsection \<open>Write\<close>

text \<open>
  When the relay fails, what \<^verbatim>\<open>doWrite\<close> returns is the result of \<^verbatim>\<open>tunnel.Close()\<close>:
  the assignment \<^verbatim>\<open>err = tunnel.Close()\<close> overwrites the relay's error.
\<close>

lemma doWrite_copy_failed:
  "tunnels s u = Some t \<Longrightarrow> copy_err rq = Some e \<Longrightarrow> fst (doWrite rq u s) = Return (close_err rq)"
  by (simp add: doWrite_def getTunnel_Some deferred_def tunnel_Close_def Let_def
      split: option.splits)

text \<open>
  C1. The write relay is claimed to return the relay's own failure after tearing the tunnel
  down, whatever the close does. On a registered tunnel, with a relay that fails with
  \<open>unexpected EOF\<close>: when the close succeeds the handler returns no error at all, and
  when the close fails with \<open>already closed\<close> the handler returns that secondary error.
\<close>

theorem C1_relay_failure_is_overwritten:
  "tunnels registered ''123e4567-e89b-12d3-a456-426614174000'' = Some example_tunnel \<and>
   copy_err write_request = Some (Plain ''unexpected EOF'') \<and>
   fst (doWrite write_request ''123e4567-e89b-12d3-a456-426614174000'' registered) = Return None \<and>
   fst (handleTunnelRequestCore write_request registered) = Return None \<and>
   fst (doWrite (write_request\<lparr>close_err := Some (Plain ''already closed'')\<rparr>)
          ''123e4567-e89b-12d3-a456-426614174000'' registered)
     = Return (Some (Plain ''already closed''))"
  by (simp add: doWrite_def getTunnel_def deferred_def tunnel_Close_def Let_def
      registered_def write_request_def example_request_def example_tunnel_def
      handleTunnelRequestCore_def HasPrefix_def ReadPrefix_def WritePrefix_def
      WritePrefixLength_def UuidLength_def slice_def)

subsection \<open>Untagged errors\<close>

lemma writes_emit [simp]: "writes (emit e s) = writes s"
  by (simp add: emit_def)

lemma writes_logger [simp]: "writes (logger l m s) = writes s"
  by (simp add: logger_def)

lemma writes_flush [simp]: "writes (flush rq s) = writes s"
  by (simp add: flush_def)

lemma writes_deregisterTunnel [simp]: "writes (deregisterTunnel t s) = writes s"
  by (simp add: deregisterTunnel_def)

lemma writes_tunnel_Close [simp]: "writes (snd (tunnel_Close rq t s)) = writes s"
  by (simp add: tunnel_Close_def)

lemma stream_end_write_fails:
  "write_err rq (writes s) = Some m \<Longrightarrow> fst (stream_end rq t err s) = Return (Some (Plain m))"
  by (simp add: stream_end_def response_Write_def Let_def)

lemma doRead_empty_pull_write_fails:
  assumes "tunnels s u = Some t" "pulls rq = p # ps" "read_err p = None" "message p = []"
    "write_err rq (writes s) = Some m"
  shows "fst (stream rq t s) = Return (Some (Plain m))" and "fst (doRead rq u s) = Panic"
  using assms
  by (simp_all add: doRead_def getTunnel_Some stream_def Let_def stream_end_write_fails
      stream_end_def response_Write_def deferred_def split: prod.splits)

text \<open>
  C10. \<^verbatim>\<open>ServeHTTP\<close> asserts that a non-nil error of the dispatch core is a tagged error:
  on an untagged one it panics. Untagged errors do arise. In the write relay, when the
  relay fails and \<^verbatim>\<open>tunnel.Close()\<close> fails with an untagged error, \<^verbatim>\<open>doWrite\<close> returns
  that error and \<^verbatim>\<open>ServeHTTP\<close> panics. In the streaming loop, a failing write of the
  end-of-instructions marker is returned untagged by \<^verbatim>\<open>stream\<close>; there the same
  assertion in \<^verbatim>\<open>doRead\<close> fails first, and the panic passes through \<^verbatim>\<open>ServeHTTP\<close>.
  Either way the handler does not return.
\<close>

theorem C10_untagged_error_panics:
  "(fst (handleTunnelRequestCore rq s) = Return (Some (Plain m)) \<longrightarrow> fst (ServeHTTP rq s) = Panic) \<and>
   (HasPrefix (RawQuery rq) WritePrefix \<and>
    slice (RawQuery rq) WritePrefixLength (WritePrefixLength + UuidLength) = Some u \<and>
    tunnels s u = Some t \<and> copy_err rq = Some e \<and> close_err rq = Some (Plain m) \<longrightarrow>
      fst (doWrite rq u s) = Return (Some (Plain m)) \<and> fst (ServeHTTP rq s) = Panic) \<and>
   (write_err rq (writes s) = Some m \<longrightarrow> fst (stream_end rq t err s) = Return (Some (Plain m))) \<and>
   (HasPrefix (RawQuery rq) ReadPrefix \<and>
    slice (RawQuery rq) ReadPrefixLength (ReadPrefixLength + UuidLength) = Some u \<and>
    tunnels s u = Some t \<and> pulls rq = p # ps \<and> read_err p = None \<and> message p = [] \<and>
    write_err rq (writes s) = Some m \<longrightarrow>
      fst (stream rq t s) = Return (Some (Plain m)) \<and> fst (doRead rq u s) = Panic \<and>
      fst (ServeHTTP rq s) = Panic)"
proof (intro conjI impI)
  assume "fst (handleTunnelRequestCore rq s) = Return (Some (Plain m))"
  then show "fst (ServeHTTP rq s) = Panic" by (rule ServeHTTP_untagged)
next
  assume a: "HasPrefix (RawQuery rq) WritePrefix \<and>
    slice (RawQuery rq) WritePrefixLength (WritePrefixLength + UuidLength) = Some u \<and>
    tunnels s u = Some t \<and> copy_err rq = Some e \<and> close_err rq = Some (Plain m)"
  then show w: "fst (doWrite rq u s) = Return (Some (Plain m))"
    by (simp add: doWrite_copy_failed)
  from a have "handleTunnelRequestCore rq s = doWrite rq u s"
    by (simp add: core_write)
  with w show "fst (ServeHTTP rq s) = Panic"
    by (simp add: ServeHTTP_untagged)
next
  assume "write_err rq (writes s) = Some m"
  then show "fst (stream_end rq t err s) = Return (Some (Plain m))"
    by (rule stream_end_write_fails)
next
  assume a: "HasPrefix (RawQuery rq) ReadPrefix \<and>
    slice (RawQuery rq) ReadPrefixLength (ReadPrefixLength + UuidLength) = Some u \<and>
    tunnels s u = Some t \<and> pulls rq = p # ps \<and> read_err p = None \<and> message p = [] \<and>
    write_err rq (writes s) = Some m"
  then show "fst (stream rq t s) = Return (Some (Plain m))"
    by (simp add: doRead_empty_pull_write_fails(1)[of s u t rq p ps m])
  from a show r: "fst (doRead rq u s) = Panic"
    by (simp add: doRead_empty_pull_write_fails(2)[of s u t rq p ps m])
  from a have "handleTunnelRequestCore rq s = doRead rq u s"
    by (simp add: core_read)
  with r show "fst (ServeHTTP rq s) = Panic"
    by (simp add: ServeHTTP_Panic)
qed

theorem C10_untagged_error_witness:
  "HasPrefix (RawQuery (write_request\<lparr>close_err := Some (Plain ''already closed'')\<rparr>)) WritePrefix \<and>
   tunnels registered ''123e4567-e89b-12d3-a456-426614174000'' = Some example_tunnel \<and>
   fst (ServeHTTP (write_request\<lparr>close_err := Some (Plain ''already closed'')\<rparr>) registered) = Panic \<and>
   HasPrefix (RawQuery (read_request\<lparr>write_err := (\<lambda>n. Some ''broken pipe'')\<rparr>)) ReadPrefix \<and>
   fst (ServeHTTP (read_request\<lparr>write_err := (\<lambda>n. Some ''broken pipe'')\<rparr>) registered) = Panic"
  using C10_untagged_error_panics[of "write_request\<lparr>close_err := Some (Plain ''already closed'')\<rparr>"
      registered "''already closed''" "''123e4567-e89b-12d3-a456-426614174000''" example_tunnel
      "Plain ''unexpected EOF''"]
    C10_untagged_error_panics[of "read_request\<lparr>write_err := (\<lambda>n. Some ''broken pipe'')\<rparr>"
      registered "''broken pipe''" "''123e4567-e89b-12d3-a456-426614174000''" example_tunnel _ _
      "\<lparr>message = [], read_err = None, available = False, queued = False\<rparr>" "[]"]
  by (simp add: write_request_def read_request_def example_request_def registered_def
      example_tunnel_def HasPrefix_def ReadPrefix_def WritePrefix_def ReadPrefixLength_def
      WritePrefixLength_def UuidLength_def slice_def)

end
